theory Spec2Isabelle
  imports Complex_Main "HOL-Library.Word" "HOL-Library.AList" "HOL-Library.Multiset"
    "HOL-Library.Log_Nat"
begin

section \<open>The isolated-CPU tracker (package isolated, the variant with RemoveTracking)\<close>

text \<open>
  The package keeps two package-level Go maps: \<open>procs: map[CPUId]procsTracker\<close> and
  \<open>cpus: map[Pid]CPUId\<close>. A \<open>procsTracker\<close> is a struct of two Go maps. A Go map
  value is a reference: two copies of a struct share the maps they point to, but an
  assignment to a field of a copy changes the copy only. The claims about the swap of the
  generations depend on exactly this, so the maps live in an explicit store and the
  struct holds references into it (\<open>None\<close> is the nil map).

  A Go map is an association list with distinct keys; the order of the list stands for
  the order in which \<open>range\<close> visits the map, which Go leaves unspecified.
\<close>

type_synonym Pid = "32 word"
type_synonym CPUId = int

record ActiveProc =
  Pid :: Pid
  Cpu :: int
  Comm :: string

type_synonym procmap = "(Pid \<times> ActiveProc) list"
type_synonym mapref = nat

record procsTracker =
  currentProcs :: "mapref option"
  previousProcs :: "mapref option"

record isolated_state =
  store :: "procmap list"
  procs :: "(CPUId \<times> procsTracker) list"
  cpus :: "(Pid \<times> CPUId) list"

datatype go_panic = AssignmentToNilMap | SliceBoundsOutOfRange

text \<open>The package variables before \<open>Init\<close>: both maps empty, nothing allocated.\<close>

definition isolated_start :: isolated_state where
  "isolated_start = \<lparr>store = [], procs = [], cpus = []\<rparr>"

text \<open>\<open>t, _ := procs[cpu]\<close>: a copy of the stored struct, the zero struct (two nil maps)
  when the key is absent.\<close>

definition tracker_of :: "isolated_state \<Rightarrow> CPUId \<Rightarrow> procsTracker" where
  "tracker_of s cpu =
     (case map_of (procs s) cpu of
        None \<Rightarrow> \<lparr>currentProcs = None, previousProcs = None\<rparr>
      | Some t \<Rightarrow> t)"

text \<open>Reading through a map reference; a nil map reads as the empty map.\<close>

definition deref :: "procmap list \<Rightarrow> mapref option \<Rightarrow> procmap" where
  "deref h r = (case r of None \<Rightarrow> [] | Some a \<Rightarrow> if a < length h then h ! a else [])"

text \<open>The two generations as stored for a CPU.\<close>

definition current_of :: "isolated_state \<Rightarrow> CPUId \<Rightarrow> procmap" where
  "current_of s cpu = deref (store s) (currentProcs (tracker_of s cpu))"

definition previous_of :: "isolated_state \<Rightarrow> CPUId \<Rightarrow> procmap" where
  "previous_of s cpu = deref (store s) (previousProcs (tracker_of s cpu))"

text \<open>\<open>Init\<close>: for each isolated CPU two fresh empty maps.\<close>

fun Init :: "CPUId list \<Rightarrow> isolated_state \<Rightarrow> isolated_state" where
  "Init [] s = s"
| "Init (cpu # isolated) s =
     Init isolated
       (s\<lparr>store := store s @ [[], []],
          procs := AList.update cpu
            \<lparr>currentProcs = Some (length (store s)),
             previousProcs = Some (Suc (length (store s)))\<rparr> (procs s)\<rparr>)"

text \<open>\<open>Track\<close>: the write goes through the map reference of the copy, so the stored
  tracker sees it; writing into the nil map of an unknown CPU panics.\<close>

definition Track :: "CPUId \<Rightarrow> ActiveProc \<Rightarrow> isolated_state \<Rightarrow> go_panic + isolated_state" where
  "Track cpu proc s =
     (let t = tracker_of s cpu in
      case currentProcs t of
        None \<Rightarrow> Inl AssignmentToNilMap
      | Some a \<Rightarrow>
          Inr (s\<lparr>store := (store s)[a := AList.update (Pid proc) proc (deref (store s) (Some a))],
                  cpus := AList.update (Pid proc) cpu (cpus s)\<rparr>))"

text \<open>\<open>RemoveTracking\<close>: \<open>cpus[pid]\<close> is CPU 0 for an unknown pid; only
  \<open>pt.currentProcs\<close> is deleted from; \<open>delete\<close> on a nil map does nothing.\<close>

definition RemoveTracking :: "Pid \<Rightarrow> isolated_state \<Rightarrow> isolated_state" where
  "RemoveTracking pid s =
     (let cpu = (case map_of (cpus s) pid of None \<Rightarrow> 0 | Some c \<Rightarrow> c);
          s1 = s\<lparr>cpus := AList.delete pid (cpus s)\<rparr>;
          pt = tracker_of s1 cpu
      in case currentProcs pt of
           None \<Rightarrow> s1
         | Some a \<Rightarrow> s1\<lparr>store := (store s1)[a := AList.delete pid (deref (store s1) (Some a))]\<rparr>)"

text \<open>
  \<open>ActiveProcs\<close>. The local \<open>t\<close> is a copy of \<open>procs[cpu]\<close>. In the first branch the
  code assigns \<open>t.previousProcs = t.currentProcs\<close> and \<open>t.currentProcs = map[..]{}\<close>
  (a fresh map is allocated), and returns. It never assigns \<open>procs[cpu] = t\<close>, so the
  two field updates end with the local variable: the returned state differs from the
  given one only by the allocated, unreferenced map. The result is the list of values
  of the chosen map (in Go in an unspecified order).
\<close>

definition ActiveProcs :: "CPUId \<Rightarrow> isolated_state \<Rightarrow> ActiveProc list \<times> isolated_state" where
  "ActiveProcs cpu s =
     (let t = tracker_of s cpu in
      if length (deref (store s) (currentProcs t)) \<noteq> 0 then
        (let activeProcs = currentProcs t;
             t1 = t\<lparr>previousProcs := currentProcs t\<rparr>;
             fresh = length (store s);
             s1 = s\<lparr>store := store s @ [[]]\<rparr>;
             t2 = t1\<lparr>currentProcs := Some fresh\<rparr>
         in (map snd (deref (store s1) activeProcs), s1))
      else
        (let activeProcs = previousProcs t
         in (map snd (deref (store s) activeProcs), s)))"

text \<open>\<open>Track\<close> inside a sequence of calls. A panic ends the program; the sequences
  below track isolated CPUs only and never meet one, so \<open>track\<close> leaves the state as
  it is in that case.\<close>

definition track :: "CPUId \<Rightarrow> ActiveProc \<Rightarrow> isolated_state \<Rightarrow> isolated_state" where
  "track cpu proc s = (case Track cpu proc s of Inl _ \<Rightarrow> s | Inr s' \<Rightarrow> s')"

definition proc5 :: ActiveProc where
  "proc5 = \<lparr>Pid = 5, Cpu = 0, Comm = ''five''\<rparr>"

definition proc6 :: ActiveProc where
  "proc6 = \<lparr>Pid = 6, Cpu = 0, Comm = ''six''\<rparr>"

definition tracked5 :: isolated_state where
  "tracked5 = track 0 proc5 (Init [0] isolated_start)"




text \<open>
  The map references that the stored trackers hold, and the states in which every stored
  tracker holds two allocated maps and no map is held twice. \<open>Init\<close> allocates two
  fresh maps per CPU, and no function of the package stores a map reference anywhere
  else, so the states the package reaches are of this kind.
\<close>

fun refs_of :: "(CPUId \<times> procsTracker) list \<Rightarrow> mapref option list" where
  "refs_of [] = []"
| "refs_of ((cpu, t) # ps) = currentProcs t # previousProcs t # refs_of ps"

definition wf_refs :: "nat \<Rightarrow> (CPUId \<times> procsTracker) list \<Rightarrow> bool" where
  "wf_refs n ps =
     (distinct (refs_of ps)
      \<and> list_all (\<lambda>r. case r of None \<Rightarrow> False | Some a \<Rightarrow> a < n) (refs_of ps))"

definition wf_state :: "isolated_state \<Rightarrow> bool" where
  "wf_state s = wf_refs (length (store s)) (procs s)"




section \<open>The drain of the active-process table (package ebpf, GetActiveProcs)\<close>

text \<open>
  \<open>keplerActiveProc\<close> is the generated Go twin of the kernel's
  \<open>struct active_proc {__u32 pid; int cpu; char comm[16]}\<close>. The kernel side is an input
  of the model: the list of answers that successive \<open>BatchLookupAndDelete\<close> calls give,
  each the rows of that batch and the error returned with them. A call writes its rows
  into the buffers it is given, from index 0, and returns their number; it never writes
  more rows than the buffer holds. When the answers are used up the table is empty, and
  the kernel answers with no rows and \<open>ErrKeyNotExist\<close>.
\<close>

record keplerActiveProc =
  kPid :: "32 word"
  kCpu :: "32 word"
  kComm :: "8 word list"

record ActiveProcsRow =
  rowPid :: "32 word"
  rowComm :: string

datatype batch_err = BatchOk | ErrKeyNotExist | BatchFailed

datatype drain_error = DrainFailed | Panicked go_panic

definition zeroActiveProc :: keplerActiveProc where
  "zeroActiveProc = \<lparr>kPid = 0, kCpu = 0, kComm = replicate 16 0\<rparr>"

text \<open>\<open>C.GoString\<close>: the bytes before the first NUL.\<close>

definition GoString :: "8 word list \<Rightarrow> string" where
  "GoString b = map (\<lambda>c. char_of (uint c)) (takeWhile (\<lambda>c. c \<noteq> 0) b)"

text \<open>One batch written into the buffer \<open>values\<close>: the rows replace the entries from
  index 0 on, the rest of the buffer keeps what it held.\<close>

definition write_batch :: "'a list \<Rightarrow> 'a list \<Rightarrow> 'a list" where
  "write_batch rows buf = take (length buf) rows @ drop (length rows) buf"

text \<open>The \<open>for\<close> loop of \<open>GetActiveProcs\<close>: every call is given the same \<open>values\<close>
  slice, \<open>total\<close> (here \<open>tot\<close>) adds the counts up.\<close>

fun drain_loop ::
  "(keplerActiveProc list \<times> batch_err) list \<Rightarrow> nat \<Rightarrow> keplerActiveProc list
     \<Rightarrow> drain_error + (nat \<times> keplerActiveProc list)" where
  "drain_loop [] tot values = Inr (tot, values)"
| "drain_loop ((rows, err) # later) tot values =
     (let count = min (length rows) (length values);
          values1 = write_batch rows values;
          tot1 = tot + count
      in if err = ErrKeyNotExist then Inr (tot1, values1)
         else if err \<noteq> BatchOk then Inl DrainFailed
         else drain_loop later tot1 values1)"

definition GetActiveProcs ::
  "nat \<Rightarrow> (keplerActiveProc list \<times> batch_err) list \<Rightarrow> drain_error + ActiveProcsRow list" where
  "GetActiveProcs maxEntries answers =
     (case drain_loop answers 0 (replicate maxEntries zeroActiveProc) of
        Inl e \<Rightarrow> Inl e
      | Inr (tot, values) \<Rightarrow>
          if maxEntries < tot then Inl (Panicked SliceBoundsOutOfRange)
          else Inr (map (\<lambda>proc. \<lparr>rowPid = kPid proc, rowComm = GoString (kComm proc)\<rparr>)
                      (take tot values)))"

definition kproc :: "32 word \<Rightarrow> keplerActiveProc" where
  "kproc pid = \<lparr>kPid = pid, kCpu = 0, kComm = replicate 16 0\<rparr>"

section \<open>The CPU-time sampler (the refactored program: collectAndPrintCPUData and its helpers)\<close>

text \<open>
  \<open>float64\<close> values are reals. In \<open>usage_of\<close> and \<open>calculateUsageData\<close> the quotient
  \<open>float64(x) / float64(clkTck)\<close> is the exact quotient, without the rounding of the
  conversion and of the division; they serve where the rounding changes nothing (a delta
  of zero, the order of the report, what is printed). Where the value of a delta
  matters, \<open>usage_with\<close> and \<open>calculateUsageData_with\<close> below take the rounded quotient
  as a parameter. \<open>clkTck\<close> is what \<open>sysconf(SC_CLK_TCK)\<close> returned at startup; where a
  property needs it positive it says so.
\<close>

record cpuTimeProcessInfo =
  CpuTime :: "64 word"
  info_Comm :: "8 word list"

record ProcessData =
  pd_PID :: "32 word"
  CPUTime :: "64 word"
  LastTime :: "64 word"
  pd_Comm :: string
  pd_Executable :: string

record ProcessUsage =
  pu_PID :: "32 word"
  CPUDelta :: real
  TotalTime :: real
  pu_Comm :: string
  pu_Executable :: string

record Config =
  interval :: int
  count :: int
  clkTck :: int

type_synonym ktable = "32 word \<rightharpoonup> cpuTimeProcessInfo"

text \<open>
  What one tick meets outside the program: whether \<open>it.Open()\<close> fails, how
  \<open>iter.Read\<close> ends, the rows that \<open>ProcessMap.Iterate()\<close> yields in order and whether
  the iterator ends with an error, the executable path that \<open>/proc\<close> gives for a pid, the
  kernel table as it is when the clear runs (the rows read plus whatever was written
  since), and whether the batch-delete system call is refused as a whole.
\<close>

datatype read_result = ReadNil | ReadErrClosed | ReadEOF | ReadFailed

record tick_env =
  openFails :: bool
  readResult :: read_result
  iterated :: "(32 word \<times> cpuTimeProcessInfo) list"
  iterErr :: bool
  executables :: "32 word \<Rightarrow> string"
  tableAtClear :: ktable
  deleteRefused :: bool

datatype tick_error = OpenFailed | ReadError | IterateFailed | BatchDeleteFailed

text \<open>\<open>trimNullBytes\<close>: the bytes before the first zero, as a string.\<close>

definition trimNullBytes :: "8 word list \<Rightarrow> string" where
  "trimNullBytes b = map (\<lambda>c. char_of (uint c)) (takeWhile (\<lambda>c. c \<noteq> 0) b)"

text \<open>The body of the \<open>for cpuIter.Next(&key, &value)\<close> loop of \<open>collectCurrentData\<close>.\<close>

definition collect_row ::
  "(32 word \<Rightarrow> string) \<Rightarrow> (32 word \<times> ProcessData) list \<times> 32 word list
     \<Rightarrow> 32 word \<times> cpuTimeProcessInfo \<Rightarrow> (32 word \<times> ProcessData) list \<times> 32 word list" where
  "collect_row getExecutablePath acc row =
     (case (acc, row) of
        ((currentData, keys), (key, val)) \<Rightarrow>
          (AList.update key
             \<lparr>pd_PID = key, CPUTime = CpuTime val, LastTime = 0,
              pd_Comm = trimNullBytes (info_Comm val),
              pd_Executable = getExecutablePath key\<rparr> currentData,
           keys @ [key]))"

definition collectCurrentData ::
  "tick_env \<Rightarrow> tick_error + ((32 word \<times> ProcessData) list \<times> 32 word list)" where
  "collectCurrentData env =
     (if openFails env then Inl OpenFailed
      else if readResult env = ReadFailed then Inl ReadError
      else let collected = foldl (collect_row (executables env)) ([], []) (iterated env)
           in if iterErr env then Inl IterateFailed else Inr collected)"

text \<open>
  The kernel's batch delete, as the map's \<open>BatchDelete(keys, nil)\<close> reaches it: the keys
  are deleted one after the other; the first key that is not in the table stops the
  call with an error, the keys before it stay deleted. The result is the number of keys
  deleted, whether the call failed, and the table afterwards.
\<close>

fun BatchDelete :: "32 word list \<Rightarrow> ktable \<Rightarrow> nat \<times> bool \<times> ktable" where
  "BatchDelete [] tbl = (0, False, tbl)"
| "BatchDelete (k # ks) tbl =
     (case tbl k of
        None \<Rightarrow> (0, True, tbl)
      | Some _ \<Rightarrow>
          (case BatchDelete ks (tbl(k := None)) of (n, failed, tbl') \<Rightarrow> (Suc n, failed, tbl')))"

definition kernel_BatchDelete :: "bool \<Rightarrow> 32 word list \<Rightarrow> ktable \<Rightarrow> nat \<times> bool \<times> ktable" where
  "kernel_BatchDelete refused keys tbl = (if refused then (0, True, tbl) else BatchDelete keys tbl)"

text \<open>
  \<open>sort.Slice\<close> is the standard library's: for slices of at most 12 elements it is the
  insertion sort below (element \<open>i\<close> is swapped leftwards while it is less than its left
  neighbour), for longer ones an unstable pattern-defeating quicksort with the same
  contract, a permutation ordered by \<open>less\<close>. \<open>sift_left lessFn x placed\<close> takes the sorted
  prefix in reverse, nearest neighbour first.
\<close>

fun sift_left :: "('a \<Rightarrow> 'a \<Rightarrow> bool) \<Rightarrow> 'a \<Rightarrow> 'a list \<Rightarrow> 'a list" where
  "sift_left lessFn x [] = [x]"
| "sift_left lessFn x (y # ys) =
     (if lessFn x y then y # sift_left lessFn x ys else x # y # ys)"

definition sort_Slice :: "('a \<Rightarrow> 'a \<Rightarrow> bool) \<Rightarrow> 'a list \<Rightarrow> 'a list" where
  "sort_Slice lessFn xs = rev (foldl (\<lambda>placed x. sift_left lessFn x placed) [] xs)"

text \<open>The body of the \<open>for pid, current := range currentData\<close> loop of
  \<open>calculateUsageData\<close>; \<open>cpuDelta\<close> is a \<open>uint64\<close> difference and wraps around.\<close>

definition usage_of ::
  "32 word \<Rightarrow> ProcessData \<Rightarrow> (32 word \<rightharpoonup> ProcessData) \<Rightarrow> int \<Rightarrow> ProcessUsage" where
  "usage_of pid current processData clkTck' =
     (let usage = \<lparr>pu_PID = pid, CPUDelta = 0,
                   TotalTime = real (unat (CPUTime current)) / real_of_int clkTck',
                   pu_Comm = pd_Comm current, pu_Executable = pd_Executable current\<rparr>
      in case processData pid of
           None \<Rightarrow> usage
         | Some prev \<Rightarrow>
             (let cpuDelta = CPUTime current - LastTime prev
              in usage\<lparr>CPUDelta := real (unat cpuDelta) / real_of_int clkTck'\<rparr>))"

definition calculateUsageData ::
  "(32 word \<times> ProcessData) list \<Rightarrow> (32 word \<rightharpoonup> ProcessData) \<Rightarrow> int \<Rightarrow> ProcessUsage list" where
  "calculateUsageData currentData processData clkTck' =
     sort_Slice (\<lambda>a b. CPUDelta a > CPUDelta b)
       (map (\<lambda>(pid, current). usage_of pid current processData clkTck') currentData)"

text \<open>
  Where the rounding of \<open>float64\<close> matters, the quotient
  \<open>float64(x) / float64(clkTck)\<close> is a parameter: \<open>ratio n c\<close> stands for the
  \<open>float64\<close> value that the program computes from the \<open>uint64\<close> value \<open>n\<close> and the
  \<open>int64\<close> value \<open>c\<close>. \<open>usage_with\<close> and \<open>calculateUsageData_with\<close> are the loop
  body and the function with that parameter; \<open>usage_of\<close> and \<open>calculateUsageData\<close>
  above are their instances at the exact quotient.
\<close>

definition usage_with ::
  "(nat \<Rightarrow> int \<Rightarrow> real) \<Rightarrow> 32 word \<Rightarrow> ProcessData \<Rightarrow> (32 word \<rightharpoonup> ProcessData) \<Rightarrow> int
     \<Rightarrow> ProcessUsage" where
  "usage_with ratio pid current processData clkTck' =
     (let usage = \<lparr>pu_PID = pid, CPUDelta = 0,
                   TotalTime = ratio (unat (CPUTime current)) clkTck',
                   pu_Comm = pd_Comm current, pu_Executable = pd_Executable current\<rparr>
      in case processData pid of
           None \<Rightarrow> usage
         | Some prev \<Rightarrow>
             (let cpuDelta = CPUTime current - LastTime prev
              in usage\<lparr>CPUDelta := ratio (unat cpuDelta) clkTck'\<rparr>))"

definition calculateUsageData_with ::
  "(nat \<Rightarrow> int \<Rightarrow> real) \<Rightarrow> (32 word \<times> ProcessData) list \<Rightarrow> (32 word \<rightharpoonup> ProcessData)
     \<Rightarrow> int \<Rightarrow> ProcessUsage list" where
  "calculateUsageData_with ratio currentData processData clkTck' =
     sort_Slice (\<lambda>a b. CPUDelta a > CPUDelta b)
       (map (\<lambda>(pid, current). usage_with ratio pid current processData clkTck') currentData)"

definition exact_ratio :: "nat \<Rightarrow> int \<Rightarrow> real" where
  "exact_ratio n c = real n / real_of_int c"

text \<open>
  The \<open>float64\<close> arithmetic of the program: IEEE 754 binary64 with 53 significant bits,
  rounded to nearest, ties to even. \<open>rne n d\<close> is the quotient \<open>n / d\<close> rounded to an
  integer that way. \<open>float64_of_nat n\<close> is the value of \<open>float64(n)\<close> for an unsigned
  integer, itself an integer: exact below \<open>2^53\<close>, otherwise \<open>n\<close> rounded to a multiple
  of \<open>2^s\<close> where \<open>s\<close> is the number of bits of \<open>n\<close> beyond 53. \<open>float64_quot a b\<close>
  is the \<open>float64\<close> quotient of two \<open>float64\<close> values that are the positive integers
  \<open>a\<close> and \<open>b\<close>: with \<open>e\<close> the exponent of \<open>a / b\<close> (\<open>2^e \<le> a / b < 2^(e+1)\<close>), the
  quotient rounded to a multiple of \<open>2^(e - 52)\<close>. The quotient of a \<open>uint64\<close> and a
  positive \<open>int64\<close> lies between \<open>2^-63\<close> and \<open>2^64\<close>, far inside the range of normal
  \<open>float64\<close> numbers, so overflow and subnormal results need no case. For
  \<open>clkTck = 0\<close> the program's quotient is infinite or not a number, which has no real
  value; \<open>float64_ratio\<close> is 0 there.
\<close>

definition rne :: "nat \<Rightarrow> nat \<Rightarrow> nat" where
  "rne n d =
     (let q = n div d; r = n mod d
      in if 2 * r < d then q else if d < 2 * r then q + 1 else if even q then q else q + 1)"

definition float64_of_nat :: "nat \<Rightarrow> nat" where
  "float64_of_nat n =
     (if n < 2 ^ 53 then n
      else let s = floorlog 2 n - 53 in rne n (2 ^ s) * 2 ^ s)"

definition quot_exp :: "nat \<Rightarrow> nat \<Rightarrow> int" where
  "quot_exp a b =
     (let la = floorlog 2 a; lb = floorlog 2 b
      in int la - int lb - (if a * 2 ^ lb < b * 2 ^ la then 1 else 0))"

definition float64_quot :: "nat \<Rightarrow> nat \<Rightarrow> real" where
  "float64_quot a b =
     (if a = 0 \<or> b = 0 then 0
      else let e = quot_exp a b
           in if e \<le> 52 then real (rne (a * 2 ^ nat (52 - e)) b) / 2 ^ nat (52 - e)
              else real (rne a (b * 2 ^ nat (e - 52))) * 2 ^ nat (e - 52))"

definition float64_ratio :: "nat \<Rightarrow> int \<Rightarrow> real" where
  "float64_ratio n c =
     (if 0 < c then float64_quot (float64_of_nat n) (float64_of_nat (nat c))
      else if c < 0 then - float64_quot (float64_of_nat n) (float64_of_nat (nat (- c)))
      else 0)"

definition stored_of :: "32 word \<Rightarrow> ProcessData \<Rightarrow> ProcessData" where
  "stored_of pid current =
     \<lparr>pd_PID = pid, CPUTime = CPUTime current, LastTime = CPUTime current,
      pd_Comm = pd_Comm current, pd_Executable = pd_Executable current\<rparr>"

definition updateStoredData ::
  "(32 word \<rightharpoonup> ProcessData) \<Rightarrow> (32 word \<times> ProcessData) list \<Rightarrow> (32 word \<rightharpoonup> ProcessData)" where
  "updateStoredData processData currentData =
     foldl (\<lambda>pd (pid, current). pd(pid \<mapsto> stored_of pid current)) processData currentData"

text \<open>\<open>printResults\<close>: the rows it prints, \<open>usageData[:limit]\<close>, every one of them (the
  test on \<open>CPUDelta\<close> is commented out in this program).\<close>

definition printResults :: "ProcessUsage list \<Rightarrow> int \<Rightarrow> ProcessUsage list" where
  "printResults usageData count' =
     (let limit = int (length usageData);
          limit = (if count' > 0 then min limit count' else limit)
      in take (nat limit) usageData)"

record tick_result =
  returned :: "tick_error option"
  report :: "ProcessUsage list option"
  stored :: "32 word \<rightharpoonup> ProcessData"
  table :: ktable

definition collectAndPrintCPUData ::
  "tick_env \<Rightarrow> (32 word \<rightharpoonup> ProcessData) \<Rightarrow> Config \<Rightarrow> tick_result" where
  "collectAndPrintCPUData env processData cfg =
     (case collectCurrentData env of
        Inl err \<Rightarrow>
          \<lparr>returned = Some err, report = None, stored = processData, table = tableAtClear env\<rparr>
      | Inr (currentData, keys) \<Rightarrow>
          (case kernel_BatchDelete (deleteRefused env) keys (tableAtClear env) of
             (n, failed, tbl) \<Rightarrow>
               if failed then
                 \<lparr>returned = Some BatchDeleteFailed, report = None, stored = processData,
                  table = tbl\<rparr>
               else
                 (let usageData = calculateUsageData currentData processData (clkTck cfg);
                      processData1 = updateStoredData processData currentData
                  in \<lparr>returned = None, report = Some (printResults usageData (count cfg)),
                      stored = processData1, table = tbl\<rparr>)))"

section \<open>The CPU-time sampler (the earlier program: collectAndPrintCPUData as a closure of main)\<close>

text \<open>
  The closure does the same drain, computes the usage and stores the new sample in one
  loop, then clears with \<open>ProcessMap.Delete(nil)\<close>, whose failure is only logged, sorts,
  and prints the first \<open>limit\<close> rows that have a positive delta. Its result is the error
  it returns, the rows it prints, the stored samples, the lines it logs and the kernel
  table after the clear. The program
  exists in two versions that differ only in the fields of a row; the model follows the
  one that carries the command name and the executable path, which the other lacks.
\<close>

record inline_result =
  in_returned :: "tick_error option"
  in_report :: "ProcessUsage list option"
  in_stored :: "32 word \<rightharpoonup> ProcessData"
  in_logged :: "string list"
  in_table :: ktable

text \<open>
  \<open>ProcessMap.Delete(nil)\<close>: the call names no key, so it removes no row, whatever it
  returns. (The map's keys are four bytes long and the map library refuses a nil key for
  such a map before it reaches the kernel, so the call fails on every tick.) The result
  is whether the call failed, and the table afterwards.
\<close>

definition Delete_nil :: "bool \<Rightarrow> ktable \<Rightarrow> bool \<times> ktable" where
  "Delete_nil fails tbl = (fails, tbl)"

definition inline_step ::
  "int \<Rightarrow> ProcessUsage list \<times> (32 word \<rightharpoonup> ProcessData) \<Rightarrow> 32 word \<times> ProcessData
     \<Rightarrow> ProcessUsage list \<times> (32 word \<rightharpoonup> ProcessData)" where
  "inline_step clkTck' acc entry =
     (case (acc, entry) of
        ((usageData, processData), (pid, current)) \<Rightarrow>
          (usageData @ [usage_of pid current processData clkTck'],
           processData(pid \<mapsto> stored_of pid current)))"

definition collectAndPrintCPUData_closure ::
  "tick_env \<Rightarrow> bool \<Rightarrow> (32 word \<rightharpoonup> ProcessData) \<Rightarrow> int \<Rightarrow> int \<Rightarrow> inline_result" where
  "collectAndPrintCPUData_closure env clearFails processData count' clkTck' =
     (case collectCurrentData env of
        Inl err \<Rightarrow>
          \<lparr>in_returned = Some err, in_report = None, in_stored = processData, in_logged = [],
           in_table = tableAtClear env\<rparr>
      | Inr (currentData, keys) \<Rightarrow>
          (case (foldl (inline_step clkTck') ([], processData) currentData,
                 Delete_nil clearFails (tableAtClear env)) of
             ((usageData, processData1), (failed, tbl)) \<Rightarrow>
               (let logged = (if failed then [''Warning: failed to clear process map''] else []);
                    usageSorted = sort_Slice (\<lambda>a b. CPUDelta a > CPUDelta b) usageData;
                    limit = int (length usageSorted);
                    limit = (if count' > 0 \<and> count' < limit then count' else limit)
                in \<lparr>in_returned = None,
                    in_report = Some (filter (\<lambda>process. CPUDelta process > 0)
                                        (take (nat limit) usageSorted)),
                    in_stored = processData1, in_logged = logged, in_table = tbl\<rparr>)))"

section \<open>Concrete inputs\<close>

text \<open>A table row with cumulative time \<open>t\<close> and an empty command name.\<close>

definition info :: "64 word \<Rightarrow> cpuTimeProcessInfo" where
  "info t = \<lparr>CpuTime = t, info_Comm = replicate 16 0\<rparr>"

text \<open>A tick whose drain succeeds with the given rows, and whose table at the time of the
  clear is those rows.\<close>

definition drained :: "(32 word \<times> cpuTimeProcessInfo) list \<Rightarrow> tick_env" where
  "drained rows = \<lparr>openFails = False, readResult = ReadEOF, iterated = rows, iterErr = False,
     executables = (\<lambda>pid. []), tableAtClear = map_of rows, deleteRefused = False\<rparr>"

text \<open>A stored sample: pid and last cumulative time.\<close>

definition sample :: "32 word \<Rightarrow> 64 word \<Rightarrow> ProcessData" where
  "sample pid t = \<lparr>pd_PID = pid, CPUTime = t, LastTime = t, pd_Comm = [], pd_Executable = []\<rparr>"


text \<open>The drain reads pid 1; the batch delete is refused.\<close>

definition refused_env :: tick_env where
  "refused_env = (drained [(1, info 100)])\<lparr>deleteRefused := True\<rparr>"

definition cfg0 :: Config where
  "cfg0 = \<lparr>interval = 1000000000, count = 0, clkTck = 100\<rparr>"

text \<open>Pids 10, 11 and 12 were all last seen at cumulative time 0.\<close>

definition three_before :: "32 word \<rightharpoonup> ProcessData" where
  "three_before = [10 \<mapsto> sample 10 0, 11 \<mapsto> sample 11 0, 12 \<mapsto> sample 12 0]"

text \<open>Pid 7 is read with cumulative time 300 and has no stored sample.\<close>

definition first_seen :: "(32 word \<times> ProcessData) list" where
  "first_seen = [(7, (sample 7 300)\<lparr>LastTime := 0\<rparr>)]"

text \<open>Pid 9 is read with cumulative time 5 (its stored sample may say more).\<close>

definition reused :: "(32 word \<times> ProcessData) list" where
  "reused = [(9, (sample 9 5)\<lparr>LastTime := 0\<rparr>)]"

section \<open>The sampling loop (run)\<close>

text \<open>
  Times are nanoseconds. \<open>newTs.Sub(oldTs)\<close> is a \<open>Duration\<close>, a number of
  nanoseconds, and \<open>Seconds()\<close> of a duration is below the constant \<open>0.1\<close> exactly when
  the duration is below 100000000 ns. \<open>oldTs\<close> is set once, before the loop; the body of
  the \<open>case newTs := <-ticker\<close> branch never assigns it. \<open>Drained\<close> stands for the rest of
  the branch: the drain of the active-process table, the reads of \<open>/proc\<close> and the
  \<open>ActiveProcs\<close> log line. The list given to \<open>run\<close> holds the ticks delivered before the
  context is cancelled.
\<close>

datatype tick_action = Skipped | Drained

record loop_state =
  oldTs :: int
  actions :: "(int \<times> tick_action) list"

definition on_tick :: "loop_state \<Rightarrow> int \<Rightarrow> loop_state" where
  "on_tick st newTs =
     (let timeDiff = newTs - oldTs st
      in if timeDiff < 100000000 then st\<lparr>actions := actions st @ [(newTs, Skipped)]\<rparr>
         else st\<lparr>actions := actions st @ [(newTs, Drained)]\<rparr>)"

definition run :: "int \<Rightarrow> int list \<Rightarrow> loop_state" where
  "run start ticks = foldl on_tick \<lparr>oldTs = start, actions = []\<rparr> ticks"

section \<open>The tracker: what the code does\<close>

lemma tracked5_state:
  "tracked5 = \<lparr>store = [[(5, proc5)], []],
               procs = [(0, \<lparr>currentProcs = Some 0, previousProcs = Some (Suc 0)\<rparr>)],
               cpus = [(5, 0)]\<rparr>"
  by (simp add: tracked5_def track_def Track_def isolated_start_def tracker_of_def deref_def
      proc5_def)

text \<open>
  C1. After \<open>Init({0}); Track(0, pid 5)\<close> the current generation of CPU 0 is non-empty.
  \<open>ActiveProcs(0)\<close> returns its values, but the stored tracker of CPU 0 is unchanged:
  the current generation still holds pid 5 and the previous generation is still empty.
  The swap the claim describes is lost with the local copy. So when pid 6 is tracked in
  the next tick, \<open>ActiveProcs(0)\<close> answers with pid 5 and pid 6, not with the records of
  that tick alone.
\<close>

theorem ActiveProcs_swap_is_lost:
  "fst (ActiveProcs 0 tracked5) = [proc5]
   \<and> current_of (snd (ActiveProcs 0 tracked5)) 0 = [(5, proc5)]
   \<and> previous_of (snd (ActiveProcs 0 tracked5)) 0 = []
   \<and> procs (snd (ActiveProcs 0 tracked5)) = procs tracked5
   \<and> fst (ActiveProcs 0 (track 0 proc6 (snd (ActiveProcs 0 tracked5)))) = [proc5, proc6]"
  by (simp add: tracked5_state ActiveProcs_def tracker_of_def deref_def current_of_def
      previous_of_def Let_def track_def Track_def proc5_def proc6_def)




lemma set_refs_of_update:
  "set (refs_of (AList.update c t ps))
     \<subseteq> insert (currentProcs t) (insert (previousProcs t) (set (refs_of ps)))"
  by (induction ps rule: refs_of.induct) auto

lemma distinct_refs_of_update:
  "distinct (refs_of ps) \<Longrightarrow> currentProcs t \<notin> set (refs_of ps)
   \<Longrightarrow> previousProcs t \<notin> set (refs_of ps) \<Longrightarrow> currentProcs t \<noteq> previousProcs t
   \<Longrightarrow> distinct (refs_of (AList.update c t ps))"
proof (induction ps rule: refs_of.induct)
  case 1
  then show ?case by simp
next
  case (2 cpu u ps)
  with set_refs_of_update [of c t ps] show ?case by auto
qed

lemma wf_refs_mono: "wf_refs n ps \<Longrightarrow> n \<le> m \<Longrightarrow> wf_refs m ps"
  by (auto simp: wf_refs_def list_all_iff split: option.splits)

lemma wf_refs_fresh:
  assumes "wf_refs n ps"
  shows "wf_refs (Suc (Suc n)) (AList.update c \<lparr>currentProcs = Some n, previousProcs = Some (Suc n)\<rparr> ps)"
proof -
  let ?t = "\<lparr>currentProcs = Some n, previousProcs = Some (Suc n)\<rparr>"
  from assms have old: "\<And>r. r \<in> set (refs_of ps) \<Longrightarrow> \<exists>a. r = Some a \<and> a < n"
    by (auto simp: wf_refs_def list_all_iff split: option.splits)
  then have fresh: "Some n \<notin> set (refs_of ps)" "Some (Suc n) \<notin> set (refs_of ps)"
    by fastforce+
  with assms have "distinct (refs_of (AList.update c ?t ps))"
    by (intro distinct_refs_of_update) (simp_all add: wf_refs_def)
  moreover have "list_all (\<lambda>r. case r of None \<Rightarrow> False | Some a \<Rightarrow> a < Suc (Suc n))
      (refs_of (AList.update c ?t ps))"
    unfolding list_all_iff
  proof
    fix r
    assume "r \<in> set (refs_of (AList.update c ?t ps))"
    with set_refs_of_update [of c ?t ps] old
    obtain a where "r = Some a" "a < Suc (Suc n)" by fastforce
    then show "case r of None \<Rightarrow> False | Some a \<Rightarrow> a < Suc (Suc n)" by simp
  qed
  ultimately show ?thesis by (simp add: wf_refs_def)
qed

lemma wf_start: "wf_state isolated_start"
  by (simp add: wf_state_def wf_refs_def isolated_start_def)

lemma wf_Init: "wf_state s \<Longrightarrow> wf_state (Init isolated s)"
proof (induction isolated arbitrary: s)
  case Nil
  then show ?case by simp
next
  case (Cons cpu isolated)
  from Cons.prems have "wf_refs (length (store s)) (procs s)" by (simp add: wf_state_def)
  then have "wf_state (s\<lparr>store := store s @ [[], []],
          procs := AList.update cpu
            \<lparr>currentProcs = Some (length (store s)),
             previousProcs = Some (Suc (length (store s)))\<rparr> (procs s)\<rparr>)"
    using wf_refs_fresh [of "length (store s)" "procs s" cpu] by (simp add: wf_state_def)
  then show ?case by (simp add: Cons.IH)
qed

lemma wf_Track: "wf_state s \<Longrightarrow> Track cpu proc s = Inr s' \<Longrightarrow> wf_state s'"
  by (auto simp: Track_def Let_def wf_state_def split: option.splits)

lemma wf_ActiveProcs: "wf_state s \<Longrightarrow> wf_state (snd (ActiveProcs cpu s))"
  by (auto simp: ActiveProcs_def Let_def wf_state_def intro: wf_refs_mono)

lemma wf_RemoveTracking: "wf_state s \<Longrightarrow> wf_state (RemoveTracking pid s)"
  by (auto simp: RemoveTracking_def Let_def wf_state_def split: option.splits)










section \<open>The drain: what the code does\<close>

text \<open>
  C3. A table of capacity 4 is drained in two batches: rows of pids 1 and 2 with no
  error, then the row of pid 3 with \<open>ErrKeyNotExist\<close>. The second batch is written over
  the first at index 0, while \<open>total\<close> is 3: the result holds pid 3, pid 2 and a zero
  row. The row of pid 1 is lost and a row that no batch delivered is returned. When the
  second batch holds the rows of pids 3, 4 and 5, \<open>total\<close> is 5 and exceeds the capacity
  of \<open>values\<close>: \<open>values[:total]\<close> panics and no row is returned at all.
\<close>

theorem GetActiveProcs_second_batch_overwrites_first:
  "GetActiveProcs 4 [([kproc 1, kproc 2], BatchOk), ([kproc 3], ErrKeyNotExist)]
     = Inr [\<lparr>rowPid = 3, rowComm = []\<rparr>, \<lparr>rowPid = 2, rowComm = []\<rparr>,
            \<lparr>rowPid = 0, rowComm = []\<rparr>]
   \<and> GetActiveProcs 4
       [([kproc 1, kproc 2], BatchOk), ([kproc 3, kproc 4, kproc 5], ErrKeyNotExist)]
     = Inl (Panicked SliceBoundsOutOfRange)"
  by (simp add: GetActiveProcs_def write_batch_def zeroActiveProc_def kproc_def GoString_def
      numeral_eq_Suc)

section \<open>The sampler: lemmas on the sort, the drain and the clear\<close>

lemma mset_sift_left: "mset (sift_left l x ys) = add_mset x (mset ys)"
  by (induction ys) auto

lemma mset_foldl_sift:
  "mset (foldl (\<lambda>placed x. sift_left l x placed) acc xs) = mset acc + mset xs"
  by (induction xs arbitrary: acc) (auto simp: mset_sift_left)

lemma mset_sort_Slice: "mset (sort_Slice l xs) = mset xs"
  by (simp add: sort_Slice_def mset_foldl_sift)

lemma set_sift_left: "set (sift_left l x ys) = insert x (set ys)"
  by (induction ys) auto

lemma sorted_sift_left:
  fixes f :: "'a \<Rightarrow> real"
  shows "sorted_wrt (\<lambda>a b. f a \<le> f b) ys
    \<Longrightarrow> sorted_wrt (\<lambda>a b. f a \<le> f b) (sift_left (\<lambda>a b. f a > f b) x ys)"
proof (induction ys)
  case Nil
  then show ?case by simp
next
  case (Cons y ys)
  show ?case
  proof (cases "f x > f y")
    case True
    with Cons show ?thesis by (auto simp: set_sift_left)
  next
    case False
    with Cons show ?thesis by fastforce
  qed
qed

lemma sorted_foldl_sift:
  fixes f :: "'a \<Rightarrow> real"
  shows "sorted_wrt (\<lambda>a b. f a \<le> f b) acc
    \<Longrightarrow> sorted_wrt (\<lambda>a b. f a \<le> f b) (foldl (\<lambda>placed x. sift_left (\<lambda>a b. f a > f b) x placed) acc xs)"
  by (induction xs arbitrary: acc) (auto simp: sorted_sift_left)

lemma sorted_sort_Slice:
  fixes f :: "'a \<Rightarrow> real"
  shows "sorted_wrt (\<lambda>a b. f b \<le> f a) (sort_Slice (\<lambda>a b. f a > f b) xs)"
  by (simp add: sort_Slice_def sorted_wrt_rev sorted_foldl_sift)




lemma trim0: "trimNullBytes (replicate 16 0) = []"
  by (simp add: trimNullBytes_def)

section \<open>The sampler: the clear\<close>









text \<open>
  C4 (as stated, refuted). The drain reads pid 1 and succeeds, the batch delete fails.
  \<open>collectAndPrintCPUData\<close> returns the error to its caller, prints no report and
  leaves the stored samples as they were: pid 1 gets no sample.
\<close>

theorem batch_delete_failure_counterexample:
  "returned (collectAndPrintCPUData refused_env Map.empty cfg0) = Some BatchDeleteFailed
   \<and> report (collectAndPrintCPUData refused_env Map.empty cfg0) = None
   \<and> stored (collectAndPrintCPUData refused_env Map.empty cfg0) = Map.empty"
  by (simp add: collectAndPrintCPUData_def collectCurrentData_def refused_env_def drained_def
      collect_row_def kernel_BatchDelete_def)

lemma set_sort_Slice: "set (sort_Slice l xs) = set xs"
  using mset_sort_Slice [of l xs] by (metis set_mset_mset)

lemma inline_fold:
  "snd (foldl (inline_step c) (us, pd) currentData) = updateStoredData pd currentData"
  by (induction currentData arbitrary: us pd)
     (auto simp: inline_step_def updateStoredData_def)

lemma closure_ok:
  "collectCurrentData env = Inr (currentData, keys) \<Longrightarrow>
   in_returned (collectAndPrintCPUData_closure env cf pd n c) = None
   \<and> in_report (collectAndPrintCPUData_closure env cf pd n c) \<noteq> None
   \<and> in_stored (collectAndPrintCPUData_closure env cf pd n c) = updateStoredData pd currentData
   \<and> in_logged (collectAndPrintCPUData_closure env cf pd n c)
       = (if cf then [''Warning: failed to clear process map''] else [])"
  by (simp add: collectAndPrintCPUData_closure_def Delete_nil_def case_prod_beta Let_def inline_fold)

lemma closure_report_same:
  "in_report (collectAndPrintCPUData_closure env True pd n c)
     = in_report (collectAndPrintCPUData_closure env False pd n c)"
  by (cases "collectCurrentData env")
     (simp_all add: collectAndPrintCPUData_closure_def Delete_nil_def case_prod_beta Let_def)

text \<open>
  C4 (amended). In the refactored program a tick whose drain succeeds and whose batch
  delete fails is aborted: the error \<open>failed to batch delete keys\<close> is returned to the
  caller, no report is printed and the stored samples are unchanged. In the earlier
  program, which clears with \<open>Delete(nil)\<close> after the samples are stored, a failing
  clear is only logged: the closure returns no error, prints the same report as with a
  successful clear and has stored the new samples.
\<close>

theorem failed_clear_aborts_the_refactored_tick:
  assumes "collectCurrentData env = Inr (currentData, keys)"
      and "fst (snd (kernel_BatchDelete (deleteRefused env) keys (tableAtClear env)))"
  shows "returned (collectAndPrintCPUData env pd cfg) = Some BatchDeleteFailed
       \<and> report (collectAndPrintCPUData env pd cfg) = None
       \<and> stored (collectAndPrintCPUData env pd cfg) = pd
       \<and> in_returned (collectAndPrintCPUData_closure env True pd n c) = None
       \<and> in_report (collectAndPrintCPUData_closure env True pd n c) \<noteq> None
       \<and> in_report (collectAndPrintCPUData_closure env True pd n c)
           = in_report (collectAndPrintCPUData_closure env False pd n c)
       \<and> in_stored (collectAndPrintCPUData_closure env True pd n c)
           = updateStoredData pd currentData
       \<and> in_logged (collectAndPrintCPUData_closure env True pd n c)
           = [''Warning: failed to clear process map'']"
proof -
  from assms
  have "returned (collectAndPrintCPUData env pd cfg) = Some BatchDeleteFailed
       \<and> report (collectAndPrintCPUData env pd cfg) = None
       \<and> stored (collectAndPrintCPUData env pd cfg) = pd"
    by (simp add: collectAndPrintCPUData_def case_prod_beta)
  with closure_ok [OF assms(1), of True pd n c] closure_report_same [of env pd n c]
  show ?thesis by simp
qed

lemma refused_collect:
  "collectCurrentData refused_env = Inr ([(1, (sample 1 100)\<lparr>LastTime := 0\<rparr>)], [1])"
  by (simp add: collectCurrentData_def refused_env_def drained_def collect_row_def info_def
      sample_def trim0)

text \<open>
  Both programs on the tick that reads pid 1 with a failing clear.
\<close>

theorem failed_clear_aborts_the_refactored_tick_witness:
  "returned (collectAndPrintCPUData refused_env Map.empty cfg0) = Some BatchDeleteFailed
   \<and> report (collectAndPrintCPUData refused_env Map.empty cfg0) = None
   \<and> stored (collectAndPrintCPUData refused_env Map.empty cfg0) = Map.empty
   \<and> in_returned (collectAndPrintCPUData_closure refused_env True Map.empty 0 100) = None
   \<and> in_report (collectAndPrintCPUData_closure refused_env True Map.empty 0 100) \<noteq> None
   \<and> in_stored (collectAndPrintCPUData_closure refused_env True Map.empty 0 100) 1
       = Some (sample 1 100)
   \<and> in_logged (collectAndPrintCPUData_closure refused_env True Map.empty 0 100)
       = [''Warning: failed to clear process map'']"
proof -
  have f: "fst (snd (kernel_BatchDelete (deleteRefused refused_env) [1] (tableAtClear refused_env)))"
    by (simp add: kernel_BatchDelete_def refused_env_def)
  have u: "updateStoredData Map.empty [(1, (sample 1 100)\<lparr>LastTime := 0\<rparr>)] 1 = Some (sample 1 100)"
    by (simp add: updateStoredData_def stored_of_def sample_def)
  from failed_clear_aborts_the_refactored_tick [OF refused_collect f, of Map.empty cfg0 0 100] u
  show ?thesis by metis
qed

section \<open>The sampler: the order of the report\<close>

text \<open>
  C6 (as stated, refuted). Pids 10, 11 and 12 have deltas 2.0, 5.0 and 5.0. When
  \<open>range\<close> visits the map in the order 10, 12, 11 the report is
  [(12,5.0),(11,5.0),(10,2.0)]: the comparison looks at \<open>CPUDelta\<close> only, so the tie
  between 11 and 12 is left in the order the records came in.
\<close>

theorem report_tie_order_counterexample:
  "map (\<lambda>u. (pu_PID u, CPUDelta u))
     (printResults
        (calculateUsageData [(10, sample 10 200), (12, sample 12 500), (11, sample 11 500)]
           three_before 100) 0)
   = [(12, 5), (11, 5), (10, 2)]"
  by (simp add: calculateUsageData_def sort_Slice_def usage_of_def sample_def three_before_def
      printResults_def)

lemma sorted_calculateUsageData:
  "sorted_wrt (\<lambda>a b. CPUDelta b \<le> CPUDelta a) (calculateUsageData currentData processData c)"
  unfolding calculateUsageData_def by (rule sorted_sort_Slice)

lemma printResults_is_take: "\<exists>k. printResults usageData n = take k usageData"
  unfolding printResults_def Let_def by blast

lemma sorted_wrt_take': "sorted_wrt P xs \<Longrightarrow> sorted_wrt P (take k xs)"
  by (metis append_take_drop_id sorted_wrt_append)

text \<open>
  C6 (amended). The printed report is ordered by descending \<open>CPUDelta\<close>, and the
  sorted usage data is a permutation of the records computed from the drain; the order
  among records of equal delta is not fixed by the program. When \<open>range\<close> visits the
  pids in the order 10, 11, 12 the deltas [(10,2.0),(11,5.0),(12,5.0)] are reported as
  [(11,5.0),(12,5.0),(10,2.0)].
\<close>

theorem report_sorted_by_descending_delta:
  "sorted_wrt (\<lambda>a b. CPUDelta b \<le> CPUDelta a)
     (printResults (calculateUsageData currentData processData c) n)
   \<and> mset (calculateUsageData currentData processData c)
       = mset (map (\<lambda>(pid, current). usage_of pid current processData c) currentData)
   \<and> map (\<lambda>u. (pu_PID u, CPUDelta u))
       (printResults
          (calculateUsageData [(10, sample 10 200), (11, sample 11 500), (12, sample 12 500)]
             three_before 100) 0)
       = [(11, 5), (12, 5), (10, 2)]"
proof -
  obtain k where k: "printResults (calculateUsageData currentData processData c) n
      = take k (calculateUsageData currentData processData c)"
    using printResults_is_take by blast
  have s: "sorted_wrt (\<lambda>a b. CPUDelta b \<le> CPUDelta a)
     (printResults (calculateUsageData currentData processData c) n)"
    unfolding k by (rule sorted_wrt_take' [OF sorted_calculateUsageData])
  have m: "mset (calculateUsageData currentData processData c)
       = mset (map (\<lambda>(pid, current). usage_of pid current processData c) currentData)"
    by (simp add: calculateUsageData_def mset_sort_Slice)
  have e: "map (\<lambda>u. (pu_PID u, CPUDelta u))
       (printResults
          (calculateUsageData [(10, sample 10 200), (11, sample 11 500), (12, sample 12 500)]
             three_before 100) 0)
       = [(11, 5), (12, 5), (10, 2)]"
    by (simp add: calculateUsageData_def sort_Slice_def usage_of_def sample_def three_before_def
      printResults_def)
  from s m e show ?thesis by simp
qed

section \<open>The sampler: first appearance\<close>

lemma usage_in_calculateUsageData:
  "(pid, current) \<in> set currentData \<Longrightarrow>
   usage_of pid current processData c \<in> set (calculateUsageData currentData processData c)"
  by (force simp: calculateUsageData_def set_sort_Slice)

lemma printResults_all:
  "n \<le> 0 \<or> int (length usageData) \<le> n \<Longrightarrow> printResults usageData n = usageData"
  by (auto simp: printResults_def Let_def)

lemma length_calculateUsageData:
  "length (calculateUsageData currentData processData c) = length currentData"
  using mset_sort_Slice [of "\<lambda>a b. CPUDelta a > CPUDelta b"
      "map (\<lambda>(pid, current). usage_of pid current processData c) currentData"]
  by (metis calculateUsageData_def length_map size_mset)

lemma closure_prints_positive_only:
  "in_report (collectAndPrintCPUData_closure env cf pd n c) = Some rows \<Longrightarrow>
   u \<in> set rows \<Longrightarrow> 0 < CPUDelta u"
  by (auto simp: collectAndPrintCPUData_closure_def Delete_nil_def case_prod_beta Let_def split: sum.splits)

text \<open>
  C7 (amended). A pid that is read with no stored sample gets a usage record with
  \<open>CPUDelta = 0\<close>, whatever its cumulative time, and the record is part of the usage
  data that \<open>calculateUsageData\<close> returns. The refactored program prints every record
  of the usage data that the count limit does not cut off, so the record is printed when
  \<open>count\<close> is not positive or not below the number of records. The earlier program
  prints only rows with a positive delta.
\<close>

theorem first_appearance_has_zero_delta:
  assumes "(pid, current) \<in> set currentData" and "processData pid = None"
  shows "CPUDelta (usage_of pid current processData c) = 0
    \<and> pu_PID (usage_of pid current processData c) = pid
    \<and> usage_of pid current processData c \<in> set (calculateUsageData currentData processData c)
    \<and> (n \<le> 0 \<or> int (length currentData) \<le> n \<longrightarrow>
         usage_of pid current processData c
           \<in> set (printResults (calculateUsageData currentData processData c) n))
    \<and> (\<forall>rows. in_report (collectAndPrintCPUData_closure env cf pd n c) = Some rows \<longrightarrow>
         (\<forall>u \<in> set rows. 0 < CPUDelta u))"
proof -
  have z: "CPUDelta (usage_of pid current processData c) = 0
    \<and> pu_PID (usage_of pid current processData c) = pid"
    using assms(2) by (simp add: usage_of_def)
  have m: "usage_of pid current processData c \<in> set (calculateUsageData currentData processData c)"
    using assms(1) by (rule usage_in_calculateUsageData)
  have p: "usage_of pid current processData c
           \<in> set (printResults (calculateUsageData currentData processData c) n)"
    if "n \<le> 0 \<or> int (length currentData) \<le> n"
    using that m by (simp add: printResults_all length_calculateUsageData)
  from z m p closure_prints_positive_only show ?thesis by blast
qed

text \<open>
  Pid 7 is read for the first time with cumulative time 300 at 100 ticks per second:
  total time 3 s, delta 0, printed by the refactored program. The earlier program, given
  pid 7 next to pid 8 (stored at 100, now at 500), prints the row of pid 8 only.
\<close>

theorem first_appearance_has_zero_delta_witness:
  "CPUDelta (usage_of 7 ((sample 7 300)\<lparr>LastTime := 0\<rparr>) Map.empty 100) = 0
   \<and> TotalTime (usage_of 7 ((sample 7 300)\<lparr>LastTime := 0\<rparr>) Map.empty 100) = 3
   \<and> usage_of 7 ((sample 7 300)\<lparr>LastTime := 0\<rparr>) Map.empty 100
       \<in> set (printResults (calculateUsageData first_seen Map.empty 100) 0)
   \<and> in_report (collectAndPrintCPUData_closure (drained [(7, info 300), (8, info 500)]) False
         [8 \<mapsto> sample 8 100] 0 100)
       = Some [\<lparr>pu_PID = 8, CPUDelta = 4, TotalTime = 5, pu_Comm = [], pu_Executable = []\<rparr>]
   \<and> 0 < CPUDelta \<lparr>pu_PID = 8, CPUDelta = 4, TotalTime = 5, pu_Comm = [], pu_Executable = []\<rparr>"
proof -
  have a: "(7, (sample 7 300)\<lparr>LastTime := 0\<rparr>) \<in> set first_seen"
    by (simp add: first_seen_def)
  have t: "TotalTime (usage_of 7 ((sample 7 300)\<lparr>LastTime := 0\<rparr>) Map.empty 100) = 3"
    by (simp add: usage_of_def sample_def)
  have r: "in_report (collectAndPrintCPUData_closure (drained [(7, info 300), (8, info 500)]) False
         [8 \<mapsto> sample 8 100] 0 100)
       = Some [\<lparr>pu_PID = 8, CPUDelta = 4, TotalTime = 5, pu_Comm = [], pu_Executable = []\<rparr>]"
    by (simp add: collectAndPrintCPUData_closure_def Delete_nil_def collectCurrentData_def drained_def
        collect_row_def info_def trim0 inline_step_def usage_of_def stored_of_def sample_def
        sort_Slice_def)
  from first_appearance_has_zero_delta
    [where env = "drained [(7, info 300), (8, info 500)]" and cf = False
       and pd = "[8 \<mapsto> sample 8 100]" and n = 0 and c = 100 and processData = Map.empty,
     OF a] t r
  show ?thesis by simp
qed

text \<open>
  C7 (as stated, refuted). The earlier program reads pid 7 for the first time: its
  sample is stored, but the report is empty, because the print loop skips every row
  whose delta is not positive.
\<close>

theorem closure_filters_first_appearance_counterexample:
  "collectCurrentData (drained [(7, info 300)]) = Inr (first_seen, [7])
   \<and> in_report (collectAndPrintCPUData_closure (drained [(7, info 300)]) False Map.empty 0 100)
       = Some []
   \<and> in_stored (collectAndPrintCPUData_closure (drained [(7, info 300)]) False Map.empty 0 100) 7
       = Some (sample 7 300)"
  by (simp add: collectAndPrintCPUData_closure_def Delete_nil_def collectCurrentData_def drained_def
      collect_row_def info_def trim0 inline_step_def usage_of_def stored_of_def sample_def
      sort_Slice_def first_seen_def)

section \<open>The sampler: a cumulative time that went down\<close>

lemma usage_of_exact: "usage_of = usage_with exact_ratio"
  by (intro ext) (simp only: usage_of_def usage_with_def exact_ratio_def)

lemma calculateUsageData_exact: "calculateUsageData = calculateUsageData_with exact_ratio"
  by (intro ext) (simp add: calculateUsageData_def calculateUsageData_with_def usage_of_exact)

lemma rne_ge_div: "n div d \<le> rne n d"
  by (simp add: rne_def Let_def)


lemma rne_pos: "0 < d \<Longrightarrow> d \<le> n \<Longrightarrow> 0 < rne n d"
proof -
  assume "0 < d" "d \<le> n"
  then have "0 < n div d" by (simp add: div_greater_zero_iff)
  with rne_ge_div [of n d] show ?thesis by linarith
qed


lemma float64_of_nat_pos: "0 < n \<Longrightarrow> 0 < float64_of_nat n"
proof (cases "n < 2 ^ 53")
  case True
  assume "0 < n"
  with True show ?thesis by (simp add: float64_of_nat_def)
next
  case False
  assume n: "0 < n"
  let ?s = "floorlog 2 n - 53"
  have "(2::nat) ^ ?s \<le> 2 ^ (floorlog 2 n - 1)"
    by (rule power_increasing) simp_all
  also have "\<dots> \<le> n" using floorlog_bounds [of n 2] n by simp
  finally have "0 < rne n (2 ^ ?s)" by (intro rne_pos) simp_all
  with False show ?thesis by (simp add: float64_of_nat_def Let_def)
qed


lemma float64_quot_nonneg: "0 \<le> float64_quot a b"
  by (simp add: float64_quot_def Let_def)


lemma quot_exp_le: "quot_exp a b \<le> int (floorlog 2 a) - int (floorlog 2 b)"
  by (simp add: quot_exp_def Let_def)

lemma float64_quot_pos:
  assumes "0 < a" and "0 < b"
  shows "0 < float64_quot a b"
proof -
  define la where "la = floorlog 2 a"
  define lb where "lb = floorlog 2 b"
  define e where "e = quot_exp a b"
  have a: "2 ^ (la - 1) \<le> a" and b: "b < 2 ^ lb"
    using floorlog_bounds [of a 2] floorlog_bounds [of b 2] assms
    by (simp_all add: la_def lb_def)
  have la: "0 < la" using assms(1) unfolding la_def
    by (metis floorlog_eq_zero_iff not_gr_zero not_le one_less_numeral_iff semiring_norm(76))
  have e: "e \<le> int la - int lb" unfolding e_def la_def lb_def by (rule quot_exp_le)
  show ?thesis
  proof (cases "e \<le> 52")
    case True
    define k where "k = nat (52 - e)"
    from True have ke: "int k = 52 - e" by (simp add: k_def)
    from e la ke have "lb \<le> la - 1 + k" by linarith
    then have "(2::nat) ^ lb \<le> 2 ^ (la - 1 + k)" by (rule power_increasing) simp
    also have "\<dots> = 2 ^ (la - 1) * 2 ^ k" by (simp add: power_add)
    also have "\<dots> \<le> a * 2 ^ k" using a by simp
    finally have "b \<le> a * 2 ^ k" using b by linarith
    with assms(2) have "0 < rne (a * 2 ^ k) b" by (intro rne_pos)
    then have "0 < real (rne (a * 2 ^ k) b) / 2 ^ k" by simp
    moreover from True assms
    have "float64_quot a b = real (rne (a * 2 ^ k) b) / 2 ^ k"
      unfolding float64_quot_def Let_def e_def [symmetric] k_def by simp
    ultimately show ?thesis by (simp only:)
  next
    case False
    define k where "k = nat (e - 52)"
    from False have ke: "int k = e - 52" by (simp add: k_def)
    from e la ke have "lb + k \<le> la - 1" by linarith
    then have le: "(2::nat) ^ (lb + k) \<le> 2 ^ (la - 1)" by (rule power_increasing) simp
    have "b * 2 ^ k \<le> 2 ^ lb * 2 ^ k" using b by simp
    also have "\<dots> = 2 ^ (lb + k)" by (simp add: power_add)
    also note le
    also note a
    finally have "b * 2 ^ k \<le> a" .
    moreover from assms(2) have "0 < b * 2 ^ k" by simp
    ultimately have "0 < rne a (b * 2 ^ k)" by (intro rne_pos)
    then have "0 < real (rne a (b * 2 ^ k)) * 2 ^ k" by simp
    moreover from False assms
    have "float64_quot a b = real (rne a (b * 2 ^ k)) * 2 ^ k"
      unfolding float64_quot_def Let_def e_def [symmetric] k_def by simp
    ultimately show ?thesis by (simp only:)
  qed
qed

lemma float64_ratio_nonneg: "0 < c \<Longrightarrow> 0 \<le> float64_ratio n c"
  by (simp add: float64_ratio_def float64_quot_nonneg)


lemma float64_ratio_pos: "0 < n \<Longrightarrow> 0 < c \<Longrightarrow> 0 < float64_ratio n c"
  by (simp add: float64_ratio_def float64_quot_pos float64_of_nat_pos)

lemma float64_of_wrapped: "float64_of_nat 18446744073709551611 = 18446744073709551616"
  by (simp add: float64_of_nat_def compute_floorlog rne_def Let_def)

lemma float64_ratio_wrapped: "float64_ratio 18446744073709551611 100 = 184467440737095520"
  by (simp add: float64_ratio_def float64_of_wrapped float64_of_nat_def float64_quot_def
      quot_exp_def compute_floorlog rne_def Let_def)

lemma wrapped_uint:
  fixes new old :: "64 word"
  shows "uint (new - old) = (uint new - uint old) mod 2 ^ 64"
  by (simp add: uint_word_ariths)

lemma wrapped_uint_less:
  fixes new old :: "64 word"
  assumes "new < old"
  shows "uint (new - old) = 2 ^ 64 - (uint old - uint new)"
    and "0 < uint (new - old)"
proof -
  from assms have lt: "uint new < uint old" by (simp add: word_less_def)
  have b0: "0 \<le> uint new" by simp
  have b1: "uint old < 18446744073709551616" using uint_lt2p [of old] by simp
  have lo: "0 \<le> uint new - uint old + 18446744073709551616" using b0 b1 by linarith
  have hi: "uint new - uint old + 18446744073709551616 < 18446744073709551616"
    using lt by linarith
  have "uint (new - old) = (uint new - uint old) mod 2 ^ 64" by (rule wrapped_uint)
  also have "\<dots> = (uint new - uint old + 18446744073709551616) mod 18446744073709551616"
    by simp
  also have "\<dots> = uint new - uint old + 18446744073709551616"
    using lo hi by (rule mod_pos_pos_trivial)
  finally have eq: "uint (new - old) = uint new - uint old + 18446744073709551616" .
  then show "uint (new - old) = 2 ^ 64 - (uint old - uint new)" by simp
  from eq b0 b1 show "0 < uint (new - old)" by linarith
qed

lemma usage_with_in_calculateUsageData_with:
  "(pid, current) \<in> set currentData \<Longrightarrow>
   usage_with ratio pid current processData c
     \<in> set (calculateUsageData_with ratio currentData processData c)"
  by (force simp: calculateUsageData_with_def set_sort_Slice)

lemma usage_with_delta:
  "processData pid = Some prev \<Longrightarrow>
   CPUDelta (usage_with ratio pid current processData c)
     = ratio (nat (uint (CPUTime current - LastTime prev))) c"
  by (simp add: usage_with_def Let_def)

lemma usage_with_nonneg:
  assumes "\<And>n. 0 \<le> ratio n c"
  shows "0 \<le> CPUDelta (usage_with ratio p cur pd c)"
  using assms by (cases "pd p") (simp_all add: usage_with_def Let_def)

text \<open>
  C9. A pid read with a cumulative time strictly below its stored last time, with a
  positive clock tick rate. The \<open>uint64\<close> difference wraps around: it is the difference
  modulo \<open>2^64\<close>, that is \<open>2^64 - (old - new)\<close>. The delta is the \<open>float64\<close> quotient
  of that value and \<open>clkTck\<close>; for every \<open>float64\<close> quotient that is not negative, and
  positive for a positive dividend, the delta is positive and no record of the usage
  data has a negative delta.
\<close>

theorem delta_is_unchecked_uint64_subtraction:
  assumes "(pid, current) \<in> set currentData"
      and "processData pid = Some prev"
      and "CPUTime current < LastTime prev"
      and "0 < c"
      and "\<And>n. 0 \<le> ratio n c"
      and "\<And>n. 0 < n \<Longrightarrow> 0 < ratio n c"
  shows "usage_with ratio pid current processData c
           \<in> set (calculateUsageData_with ratio currentData processData c)
    \<and> CPUDelta (usage_with ratio pid current processData c)
        = ratio (nat ((uint (CPUTime current) - uint (LastTime prev)) mod 2 ^ 64)) c
    \<and> (uint (CPUTime current) - uint (LastTime prev)) mod 2 ^ 64
        = 2 ^ 64 - (uint (LastTime prev) - uint (CPUTime current))
    \<and> 0 < CPUDelta (usage_with ratio pid current processData c)
    \<and> (\<forall>u \<in> set (calculateUsageData_with ratio currentData processData c). 0 \<le> CPUDelta u)"
proof (intro conjI ballI)
  let ?d = "CPUTime current - LastTime prev"
  have d: "CPUDelta (usage_with ratio pid current processData c) = ratio (nat (uint ?d)) c"
    using assms(2) by (rule usage_with_delta)
  show "usage_with ratio pid current processData c
           \<in> set (calculateUsageData_with ratio currentData processData c)"
    using assms(1) by (rule usage_with_in_calculateUsageData_with)
  show "CPUDelta (usage_with ratio pid current processData c)
        = ratio (nat ((uint (CPUTime current) - uint (LastTime prev)) mod 2 ^ 64)) c"
    by (simp only: d wrapped_uint)
  show "(uint (CPUTime current) - uint (LastTime prev)) mod 2 ^ 64
        = 2 ^ 64 - (uint (LastTime prev) - uint (CPUTime current))"
    using wrapped_uint [of "CPUTime current" "LastTime prev"]
      wrapped_uint_less(1) [OF assms(3)] by (simp only:)
  from wrapped_uint_less(2) [OF assms(3)] have "0 < nat (uint ?d)"
    by (simp only: zero_less_nat_eq)
  then have "0 < ratio (nat (uint ?d)) c" by (rule assms(6))
  then show "0 < CPUDelta (usage_with ratio pid current processData c)" by (simp only: d)
next
  fix u
  assume "u \<in> set (calculateUsageData_with ratio currentData processData c)"
  then obtain p cur where "u = usage_with ratio p cur processData c"
    by (auto simp: calculateUsageData_with_def set_sort_Slice)
  with assms(5) show "0 \<le> CPUDelta u" by (simp only: usage_with_nonneg)
qed

text \<open>
  Stored last time 10, new cumulative time 5, 100 ticks per second, in \<open>float64\<close>
  arithmetic: the difference wraps to \<open>2^64 - 5\<close>, which \<open>float64\<close> rounds to \<open>2^64\<close>,
  and the delta is 184467440737095520 seconds.
\<close>

theorem delta_is_unchecked_uint64_subtraction_witness:
  "CPUDelta (usage_with float64_ratio 9 ((sample 9 5)\<lparr>LastTime := 0\<rparr>) [9 \<mapsto> sample 9 10] 100)
     = 184467440737095520
   \<and> usage_with float64_ratio 9 ((sample 9 5)\<lparr>LastTime := 0\<rparr>) [9 \<mapsto> sample 9 10] 100
       \<in> set (calculateUsageData_with float64_ratio reused [9 \<mapsto> sample 9 10] 100)
   \<and> 0 < CPUDelta
       (usage_with float64_ratio 9 ((sample 9 5)\<lparr>LastTime := 0\<rparr>) [9 \<mapsto> sample 9 10] 100)"
proof -
  have a: "(9, (sample 9 5)\<lparr>LastTime := 0\<rparr>) \<in> set reused"
    by (simp add: reused_def)
  have b: "[9 \<mapsto> sample 9 10] (9 :: 32 word) = Some (sample 9 10)" by simp
  have c: "CPUTime ((sample 9 5)\<lparr>LastTime := 0\<rparr>) < LastTime (sample 9 10)"
    by (simp add: sample_def)
  have p: "(0::int) < 100" by simp
  have v: "nat ((uint (CPUTime ((sample 9 5)\<lparr>LastTime := 0\<rparr>)) - uint (LastTime (sample 9 10)))
      mod 2 ^ 64) = 18446744073709551611"
    by (simp add: sample_def)
  from delta_is_unchecked_uint64_subtraction
    [where ratio = float64_ratio and pid = 9 and current = "(sample 9 5)\<lparr>LastTime := 0\<rparr>"
       and currentData = reused and processData = "[9 \<mapsto> sample 9 10]"
       and prev = "sample 9 10" and c = 100,
     OF a b c p float64_ratio_nonneg [OF p] float64_ratio_pos [OF _ p]]
  show ?thesis by (simp only: v float64_ratio_wrapped) simp
qed

section \<open>The sampling loop: what the code does\<close>

lemma oldTs_on_tick: "oldTs (on_tick st newTs) = oldTs st"
  by (simp add: on_tick_def Let_def)

lemma oldTs_foldl: "oldTs (foldl on_tick st ticks) = oldTs st"
  by (induction ticks arbitrary: st) (simp_all add: oldTs_on_tick)

text \<open>
  C8. The loop starts at time 0 with a loop interval of 50 ms. The tick at 50 ms is
  skipped and the tick at 100 ms is processed; the tick at 150 ms fires 50 ms after the
  processed one and is processed too. Likewise ticks at 1.00 s and 1.05 s are both
  processed. The guard compares every tick with the time the loop started, which the
  loop never advances.
\<close>

theorem run_processes_ticks_closer_than_the_minimum:
  "actions (run 0 [50000000, 100000000, 150000000])
     = [(50000000, Skipped), (100000000, Drained), (150000000, Drained)]
   \<and> actions (run 0 [1000000000, 1050000000])
     = [(1000000000, Drained), (1050000000, Drained)]
   \<and> oldTs (run start ticks) = start"
  by (simp add: run_def on_tick_def oldTs_foldl)

end
